theory Spec2Isabelle
  imports Main
begin

section \<open>The free store\<close>

text \<open>
  Facade.cpp creates its objects with \<open>new\<close> and destroys them with \<open>delete\<close>, and the
  claims about teardown depend on which object a pointer designates. The free store is
  therefore explicit: a list of cells indexed by address. \<open>new\<close> appends a cell (addresses
  are not reused, so a dangling pointer can never be mistaken for a valid one), \<open>delete\<close>
  marks the cell \<open>Released\<close>. A pointer is \<open>Null\<close> (\<open>nullptr\<close>) or an address.

  Allocation failure (\<open>std::bad_alloc\<close>) is not modelled: the free store is unbounded.
  Behaviour that C++ leaves undefined (a call through a null, dangling or wrongly typed
  pointer, a second \<open>delete\<close> of the same object) is an \<open>error\<close> value.
\<close>

type_synonym addr = nat

datatype ptr = Null | Addr addr

text \<open>The data members of class Facade (the source names end in an underscore).\<close>

record Facade =
  subsystem1_fld :: ptr
  subsystem2_fld :: ptr

text \<open>Subsystem1 and Subsystem2 have no data members.\<close>

datatype object = Subsystem1 | Subsystem2 | FacadeObj Facade

datatype cell = Raw | Live object | Released

type_synonym heap = "cell list"

datatype error =
    NullDereference
  | WildPointer
  | Uninitialised
  | UseAfterRelease
  | DoubleRelease
  | TypeMismatch

definition ebind :: "error + 'a \<Rightarrow> ('a \<Rightarrow> error + 'b) \<Rightarrow> error + 'b" where
  "ebind m k = (case m of Inl e \<Rightarrow> Inl e | Inr x \<Rightarrow> k x)"

definition object_at :: "heap \<Rightarrow> ptr \<Rightarrow> error + object" where
  "object_at h p =
     (case p of
        Null \<Rightarrow> Inl NullDereference
      | Addr a \<Rightarrow>
          if a < length h then
            (case h ! a of
               Raw \<Rightarrow> Inl Uninitialised
             | Live obj \<Rightarrow> Inr obj
             | Released \<Rightarrow> Inl UseAfterRelease)
          else Inl WildPointer)"

definition deref_Subsystem1 :: "heap \<Rightarrow> ptr \<Rightarrow> error + unit" where
  "deref_Subsystem1 h p =
     ebind (object_at h p)
       (\<lambda>obj. case obj of Subsystem1 \<Rightarrow> Inr () | _ \<Rightarrow> Inl TypeMismatch)"

definition deref_Subsystem2 :: "heap \<Rightarrow> ptr \<Rightarrow> error + unit" where
  "deref_Subsystem2 h p =
     ebind (object_at h p)
       (\<lambda>obj. case obj of Subsystem2 \<Rightarrow> Inr () | _ \<Rightarrow> Inl TypeMismatch)"

definition deref_Facade :: "heap \<Rightarrow> ptr \<Rightarrow> error + Facade" where
  "deref_Facade h p =
     ebind (object_at h p)
       (\<lambda>obj. case obj of FacadeObj f \<Rightarrow> Inr f | _ \<Rightarrow> Inl TypeMismatch)"

text \<open>\<open>new Subsystem1\<close> and \<open>new Subsystem2\<close>: the pointer to the new object and the new store.\<close>

definition new_Subsystem1 :: "heap \<Rightarrow> ptr \<times> heap" where
  "new_Subsystem1 h = (Addr (length h), h @ [Live Subsystem1])"

definition new_Subsystem2 :: "heap \<Rightarrow> ptr \<times> heap" where
  "new_Subsystem2 h = (Addr (length h), h @ [Live Subsystem2])"

text \<open>
  \<open>delete p\<close> for a \<open>Subsystem1*\<close> and a \<open>Subsystem2*\<close>. Deleting \<open>nullptr\<close> does nothing;
  deleting an object that was already released is the double release.
\<close>

definition release_error :: "error \<Rightarrow> error" where
  "release_error e = (if e = UseAfterRelease then DoubleRelease else e)"

definition delete_Subsystem1 :: "heap \<Rightarrow> ptr \<Rightarrow> error + heap" where
  "delete_Subsystem1 h p =
     (case p of
        Null \<Rightarrow> Inr h
      | Addr a \<Rightarrow>
          (case deref_Subsystem1 h p of
             Inl e \<Rightarrow> Inl (release_error e)
           | Inr _ \<Rightarrow> Inr (h[a := Released])))"

definition delete_Subsystem2 :: "heap \<Rightarrow> ptr \<Rightarrow> error + heap" where
  "delete_Subsystem2 h p =
     (case p of
        Null \<Rightarrow> Inr h
      | Addr a \<Rightarrow>
          (case deref_Subsystem2 h p of
             Inl e \<Rightarrow> Inl (release_error e)
           | Inr _ \<Rightarrow> Inr (h[a := Released])))"

section \<open>The subsystems\<close>

text \<open>
  Each member function takes the store and \<open>this\<close> and returns its result with the store
  after the call, so that the absence of side effects is a statement and not a typing
  convention.
\<close>

definition Subsystem1_Operation1 :: "heap \<Rightarrow> ptr \<Rightarrow> error + (string \<times> heap)" where
  "Subsystem1_Operation1 h this =
     ebind (deref_Subsystem1 h this) (\<lambda>_. Inr (''Subsystem1: Ready!\<newline>'', h))"

definition Subsystem1_OperationN :: "heap \<Rightarrow> ptr \<Rightarrow> error + (string \<times> heap)" where
  "Subsystem1_OperationN h this =
     ebind (deref_Subsystem1 h this) (\<lambda>_. Inr (''Subsystem1: Go!\<newline>'', h))"

definition Subsystem2_Operation1 :: "heap \<Rightarrow> ptr \<Rightarrow> error + (string \<times> heap)" where
  "Subsystem2_Operation1 h this =
     ebind (deref_Subsystem2 h this) (\<lambda>_. Inr (''Subsystem2: Get ready!\<newline>'', h))"

definition Subsystem2_OperationZ :: "heap \<Rightarrow> ptr \<Rightarrow> error + (string \<times> heap)" where
  "Subsystem2_OperationZ h this =
     ebind (deref_Subsystem2 h this) (\<lambda>_. Inr (''Subsystem2: Fire!\<newline>'', h))"

section \<open>The facade\<close>

text \<open>
  The constructor body: each member is the argument when the argument is not null, and a
  new default instance otherwise. It returns the two members and the store.
\<close>

definition Facade_ctor :: "heap \<Rightarrow> ptr \<Rightarrow> ptr \<Rightarrow> Facade \<times> heap" where
  "Facade_ctor h subsystem1 subsystem2 =
     (let (p1, h1) = (if subsystem1 \<noteq> Null then (subsystem1, h) else new_Subsystem1 h);
          (p2, h2) = (if subsystem2 \<noteq> Null then (subsystem2, h1) else new_Subsystem2 h1)
      in (\<lparr>subsystem1_fld = p1, subsystem2_fld = p2\<rparr>, h2))"

text \<open>
  \<open>new Facade(subsystem1, subsystem2)\<close>: the storage of the facade is obtained first, then
  the constructor runs, then the object lives at that address.
\<close>

definition new_Facade :: "heap \<Rightarrow> ptr \<Rightarrow> ptr \<Rightarrow> ptr \<times> heap" where
  "new_Facade h subsystem1 subsystem2 =
     (let a = length h;
          (f, h') = Facade_ctor (h @ [Raw]) subsystem1 subsystem2
      in (Addr a, h'[a := Live (FacadeObj f)]))"

text \<open>The destructor body deletes both members, whatever their origin.\<close>

definition Facade_dtor :: "heap \<Rightarrow> Facade \<Rightarrow> error + heap" where
  "Facade_dtor h f =
     ebind (delete_Subsystem1 h (subsystem1_fld f))
       (\<lambda>h1. delete_Subsystem2 h1 (subsystem2_fld f))"

text \<open>\<open>delete p\<close> for a \<open>Facade*\<close>: the destructor runs, then the storage is released.\<close>

definition delete_Facade :: "heap \<Rightarrow> ptr \<Rightarrow> error + heap" where
  "delete_Facade h p =
     (case p of
        Null \<Rightarrow> Inr h
      | Addr a \<Rightarrow>
          (case deref_Facade h p of
             Inl e \<Rightarrow> Inl (release_error e)
           | Inr f \<Rightarrow> ebind (Facade_dtor h f) (\<lambda>h'. Inr (h'[a := Released]))))"

text \<open>
  \<open>Facade::Operation\<close>. Every \<open>this->subsystem1_\<close> and \<open>this->subsystem2_\<close> reads the member
  from the store as it is at that point.
\<close>

definition Operation :: "heap \<Rightarrow> ptr \<Rightarrow> error + (string \<times> heap)" where
  "Operation h this =
     (let result = ''Facade initializes subsystems:\<newline>'' in
      ebind (deref_Facade h this) (\<lambda>f.
      ebind (Subsystem1_Operation1 h (subsystem1_fld f)) (\<lambda>(s, h).
      let result = result @ s in
      ebind (deref_Facade h this) (\<lambda>f.
      ebind (Subsystem2_Operation1 h (subsystem2_fld f)) (\<lambda>(s, h).
      let result = result @ s in
      let result = result @ ''Facade orders subsystems to perform the action:\<newline>'' in
      ebind (deref_Facade h this) (\<lambda>f.
      ebind (Subsystem1_OperationN h (subsystem1_fld f)) (\<lambda>(s, h).
      let result = result @ s in
      ebind (deref_Facade h this) (\<lambda>f.
      ebind (Subsystem2_OperationZ h (subsystem2_fld f)) (\<lambda>(s, h).
      let result = result @ s in
      Inr (result, h))))))))))"

section \<open>The client and the entry point\<close>

text \<open>The state of the program: the free store and what has been written to \<open>std::cout\<close>.\<close>

record state =
  mem :: heap
  cout :: string

definition ClientCode :: "state \<Rightarrow> ptr \<Rightarrow> error + state" where
  "ClientCode st facade =
     ebind (Operation (mem st) facade)
       (\<lambda>(s, h). Inr (st\<lparr>mem := h, cout := cout st @ s\<rparr>))"

text \<open>\<open>main\<close> returns its exit status and the final state.\<close>

definition main :: "state \<Rightarrow> error + (int \<times> state)" where
  "main st =
     (let (subsystem1, h) = new_Subsystem1 (mem st);
          (subsystem2, h) = new_Subsystem2 h;
          (facade, h) = new_Facade h subsystem1 subsystem2
      in
      ebind (ClientCode (st\<lparr>mem := h\<rparr>) facade) (\<lambda>st.
      let st = st\<lparr>cout := cout st @ ''\<newline>''\<rparr>;
          (facade2, h) = new_Facade (mem st) Null Null
      in
      ebind (ClientCode (st\<lparr>mem := h\<rparr>) facade2) (\<lambda>st.
      ebind (delete_Facade (mem st) facade) (\<lambda>h.
      Inr (0, st\<lparr>mem := h\<rparr>)))))"

section \<open>Well-formed pointers\<close>

definition is_Subsystem1 :: "heap \<Rightarrow> ptr \<Rightarrow> bool" where
  "is_Subsystem1 h p = (object_at h p = Inr Subsystem1)"

definition is_Subsystem2 :: "heap \<Rightarrow> ptr \<Rightarrow> bool" where
  "is_Subsystem2 h p = (object_at h p = Inr Subsystem2)"

text \<open>
  A facade instance: \<open>this\<close> designates a live Facade object whose two members designate a
  live Subsystem1 and a live Subsystem2.
\<close>

definition facade_inv :: "heap \<Rightarrow> ptr \<Rightarrow> bool" where
  "facade_inv h this =
     (case deref_Facade h this of
        Inl _ \<Rightarrow> False
      | Inr f \<Rightarrow> is_Subsystem1 h (subsystem1_fld f) \<and> is_Subsystem2 h (subsystem2_fld f))"

text \<open>The lifetime of a facade between construction and teardown: \<open>n\<close> calls of its only
  public member function, each on the store the previous call left.\<close>

fun Operations :: "nat \<Rightarrow> heap \<Rightarrow> ptr \<Rightarrow> error + (string list \<times> heap)" where
  "Operations 0 h this = Inr ([], h)"
| "Operations (Suc n) h this =
     ebind (Operation h this) (\<lambda>(s, h').
     ebind (Operations n h' this) (\<lambda>(ss, h''). Inr (s # ss, h'')))"

text \<open>The text block of the composite operation.\<close>

definition Operation_text :: string where
  "Operation_text =
     ''Facade initializes subsystems:\<newline>Subsystem1: Ready!\<newline>Subsystem2: Get ready!\<newline>Facade orders subsystems to perform the action:\<newline>Subsystem1: Go!\<newline>Subsystem2: Fire!\<newline>''"

text \<open>An argument of the constructor: null, or a live instance of the subsystem type.\<close>

definition arg1_ok :: "heap \<Rightarrow> ptr \<Rightarrow> bool" where
  "arg1_ok h p = (p = Null \<or> is_Subsystem1 h p)"

definition arg2_ok :: "heap \<Rightarrow> ptr \<Rightarrow> bool" where
  "arg2_ok h p = (p = Null \<or> is_Subsystem2 h p)"

section \<open>Basic facts about the store\<close>

lemma object_at_simps [simp]:
  "object_at h Null = Inl NullDereference"
  "a < length h \<Longrightarrow> h ! a = Live obj \<Longrightarrow> object_at h (Addr a) = Inr obj"
  by (simp_all add: object_at_def)

lemma object_at_InrD:
  "object_at h p = Inr obj \<Longrightarrow> \<exists>a. p = Addr a \<and> a < length h \<and> h ! a = Live obj"
  by (auto simp: object_at_def split: ptr.splits if_splits cell.splits)

lemma object_at_iff:
  "object_at h p = Inr obj \<longleftrightarrow> (\<exists>a. p = Addr a \<and> a < length h \<and> h ! a = Live obj)"
  using object_at_InrD by auto

lemma ebind_simps [simp]:
  "ebind (Inl e) k = Inl e"
  "ebind (Inr x) k = k x"
  by (simp_all add: ebind_def)

lemma Subsystem1_ops:
  assumes "is_Subsystem1 h p"
  shows "Subsystem1_Operation1 h p = Inr (''Subsystem1: Ready!\<newline>'', h)"
    and "Subsystem1_OperationN h p = Inr (''Subsystem1: Go!\<newline>'', h)"
  using assms
  by (simp_all add: is_Subsystem1_def Subsystem1_Operation1_def Subsystem1_OperationN_def
      deref_Subsystem1_def)

lemma Subsystem2_ops:
  assumes "is_Subsystem2 h p"
  shows "Subsystem2_Operation1 h p = Inr (''Subsystem2: Get ready!\<newline>'', h)"
    and "Subsystem2_OperationZ h p = Inr (''Subsystem2: Fire!\<newline>'', h)"
  using assms
  by (simp_all add: is_Subsystem2_def Subsystem2_Operation1_def Subsystem2_OperationZ_def
      deref_Subsystem2_def)

lemma facade_invD:
  assumes "facade_inv h this"
  obtains f where "deref_Facade h this = Inr f"
    and "is_Subsystem1 h (subsystem1_fld f)" and "is_Subsystem2 h (subsystem2_fld f)"
  using assms by (auto simp: facade_inv_def split: sum.splits)

lemma Operation_facade_inv:
  assumes "facade_inv h this"
  shows "Operation h this = Inr (Operation_text, h)"
proof -
  from assms obtain f where f: "deref_Facade h this = Inr f"
    and s1: "is_Subsystem1 h (subsystem1_fld f)" and s2: "is_Subsystem2 h (subsystem2_fld f)"
    by (rule facade_invD)
  show ?thesis
    by (simp add: Operation_def f Subsystem1_ops [OF s1] Subsystem2_ops [OF s2] Operation_text_def)
qed

lemma Operation_frame:
  assumes "Operation h this = Inr (s, h')"
  shows "h' = h"
  using assms
  by (auto simp: Operation_def ebind_def Subsystem1_Operation1_def Subsystem1_OperationN_def
      Subsystem2_Operation1_def Subsystem2_OperationZ_def split: sum.splits)


lemma object_at_append:
  "object_at h p = Inr obj \<Longrightarrow> object_at (h @ xs) p = Inr obj"
  by (auto simp: object_at_iff nth_append)

lemma is_Subsystem1_append: "is_Subsystem1 h p \<Longrightarrow> is_Subsystem1 (h @ xs) p"
  by (simp add: is_Subsystem1_def object_at_append)

lemma is_Subsystem2_append: "is_Subsystem2 h p \<Longrightarrow> is_Subsystem2 (h @ xs) p"
  by (simp add: is_Subsystem2_def object_at_append)

lemma is_Subsystem1_new: "is_Subsystem1 (h @ Live Subsystem1 # xs) (Addr (length h))"
  by (simp add: is_Subsystem1_def)

lemma is_Subsystem2_new: "is_Subsystem2 (h @ Live Subsystem2 # xs) (Addr (length h))"
  by (simp add: is_Subsystem2_def)

lemma new_Facade_Addr_Addr:
  "new_Facade h (Addr a) (Addr b) =
     (Addr (length h), h @ [Live (FacadeObj \<lparr>subsystem1_fld = Addr a, subsystem2_fld = Addr b\<rparr>)])"
  by (simp add: new_Facade_def Facade_ctor_def)

lemma new_Facade_Null_Null:
  "new_Facade h Null Null =
     (Addr (length h),
      h @ [Live (FacadeObj \<lparr>subsystem1_fld = Addr (length h + 1),
                             subsystem2_fld = Addr (length h + 2)\<rparr>),
           Live Subsystem1, Live Subsystem2])"
  by (simp add: new_Facade_def Facade_ctor_def new_Subsystem1_def new_Subsystem2_def
      list_update_append Let_def)

lemma new_Facade_Addr_Null:
  "new_Facade h (Addr a) Null =
     (Addr (length h),
      h @ [Live (FacadeObj \<lparr>subsystem1_fld = Addr a, subsystem2_fld = Addr (length h + 1)\<rparr>),
           Live Subsystem2])"
  by (simp add: new_Facade_def Facade_ctor_def new_Subsystem1_def new_Subsystem2_def
      list_update_append Let_def)

lemma new_Facade_Null_Addr:
  "new_Facade h Null (Addr b) =
     (Addr (length h),
      h @ [Live (FacadeObj \<lparr>subsystem1_fld = Addr (length h + 1), subsystem2_fld = Addr b\<rparr>),
           Live Subsystem1])"
  by (simp add: new_Facade_def Facade_ctor_def new_Subsystem1_def new_Subsystem2_def
      list_update_append Let_def)

lemmas new_Facade_cases =
  new_Facade_Addr_Addr new_Facade_Null_Null new_Facade_Addr_Null new_Facade_Null_Addr

lemma deref_Facade_new [simp]:
  "deref_Facade (h @ Live (FacadeObj f) # xs) (Addr (length h)) = Inr f"
  by (simp add: deref_Facade_def)


lemma new_Facade_inv:
  assumes "arg1_ok h s1" and "arg2_ok h s2" and "new_Facade h s1 s2 = (this, h')"
  shows "facade_inv h' this"
  using assms
  by (cases s1; cases s2)
    (auto simp: new_Facade_cases facade_inv_def arg1_ok_def arg2_ok_def
      is_Subsystem1_def is_Subsystem2_def object_at_iff nth_append)

lemma is_Subsystem1_D: "is_Subsystem1 h p \<Longrightarrow> \<exists>a. p = Addr a \<and> a < length h \<and> h ! a = Live Subsystem1"
  by (simp add: is_Subsystem1_def object_at_InrD)

lemma is_Subsystem2_D: "is_Subsystem2 h p \<Longrightarrow> \<exists>a. p = Addr a \<and> a < length h \<and> h ! a = Live Subsystem2"
  by (simp add: is_Subsystem2_def object_at_InrD)

lemma delete_Subsystem1_live:
  "a < length h \<Longrightarrow> h ! a = Live Subsystem1 \<Longrightarrow> delete_Subsystem1 h (Addr a) = Inr (h[a := Released])"
  by (simp add: delete_Subsystem1_def deref_Subsystem1_def)

lemma delete_Subsystem2_live:
  "a < length h \<Longrightarrow> h ! a = Live Subsystem2 \<Longrightarrow> delete_Subsystem2 h (Addr a) = Inr (h[a := Released])"
  by (simp add: delete_Subsystem2_def deref_Subsystem2_def)

lemma Facade_dtor_live:
  assumes "a < length h" "h ! a = Live Subsystem1" "b < length h" "h ! b = Live Subsystem2"
  shows "Facade_dtor h \<lparr>subsystem1_fld = Addr a, subsystem2_fld = Addr b\<rparr>
         = Inr (h[a := Released, b := Released])"
proof -
  from assms have "a \<noteq> b" by auto
  with assms show ?thesis
    by (simp add: Facade_dtor_def delete_Subsystem1_live delete_Subsystem2_live)
qed

lemma delete_Facade_live:
  assumes "n < length h" "h ! n = Live (FacadeObj \<lparr>subsystem1_fld = Addr a, subsystem2_fld = Addr b\<rparr>)"
    "a < length h" "h ! a = Live Subsystem1" "b < length h" "h ! b = Live Subsystem2"
  shows "delete_Facade h (Addr n) = Inr (h[a := Released, b := Released, n := Released])"
  using assms by (simp add: delete_Facade_def deref_Facade_def Facade_dtor_live)

lemma delete_borrowed:
  assumes "is_Subsystem1 h (Addr a)" "is_Subsystem2 h (Addr b)"
  shows "delete_Facade (snd (new_Facade h (Addr a) (Addr b))) (fst (new_Facade h (Addr a) (Addr b)))
       = Inr (h[a := Released, b := Released] @ [Released])"
proof -
  from assms have *: "a < length h" "h ! a = Live Subsystem1" "b < length h" "h ! b = Live Subsystem2"
    by (auto dest: is_Subsystem1_D is_Subsystem2_D)
  then show ?thesis
    by (simp add: new_Facade_Addr_Addr delete_Facade_live nth_append list_update_append)
qed

lemma delete_owned:
  "delete_Facade (snd (new_Facade h Null Null)) (fst (new_Facade h Null Null))
       = Inr (h @ [Released, Released, Released])"
  by (simp add: new_Facade_Null_Null delete_Facade_live nth_append list_update_append)


lemma Operations_frame:
  "Operations n h this = Inr (ss, h') \<Longrightarrow> h' = h"
proof (induction n arbitrary: h ss)
  case 0
  then show ?case by simp
next
  case (Suc n)
  from Suc.prems obtain s h1 ss' where op: "Operation h this = Inr (s, h1)"
    and rest: "Operations n h1 this = Inr (ss', h')"
    by (auto simp: ebind_def split: sum.splits prod.splits)
  from op have "h1 = h" by (rule Operation_frame)
  with Suc.IH [OF rest] show ?case by simp
qed

lemma Operations_facade_inv:
  "facade_inv h this \<Longrightarrow> Operations n h this = Inr (replicate n Operation_text, h)"
  by (induction n) (simp_all add: Operation_facade_inv)

lemma Operation_Inr_iff:
  "(\<exists>s h'. Operation h this = Inr (s, h')) \<longleftrightarrow> facade_inv h this"
proof
  assume "\<exists>s h'. Operation h this = Inr (s, h')"
  then show "facade_inv h this"
    by (auto simp: Operation_def ebind_def facade_inv_def is_Subsystem1_def is_Subsystem2_def
        Subsystem1_Operation1_def Subsystem2_Operation1_def
        deref_Subsystem1_def deref_Subsystem2_def
        split: sum.splits object.splits)
next
  assume "facade_inv h this"
  then show "\<exists>s h'. Operation h this = Inr (s, h')"
    by (simp add: Operation_facade_inv)
qed

lemma Facade_dtor_keeps_members:
  assumes "facade_inv h this" and "deref_Facade h this = Inr f"
  shows "\<exists>h2. Facade_dtor h f = Inr h2 \<and> deref_Facade h2 this = Inr f"
proof -
  from assms have s1: "is_Subsystem1 h (subsystem1_fld f)" and s2: "is_Subsystem2 h (subsystem2_fld f)"
    by (auto simp: facade_inv_def)
  from s1 obtain a where a: "subsystem1_fld f = Addr a" "a < length h" "h ! a = Live Subsystem1"
    by (auto dest: is_Subsystem1_D)
  from s2 obtain b where b: "subsystem2_fld f = Addr b" "b < length h" "h ! b = Live Subsystem2"
    by (auto dest: is_Subsystem2_D)
  from assms(2) obtain n where n: "this = Addr n" "n < length h" "h ! n = Live (FacadeObj f)"
    by (auto simp: deref_Facade_def ebind_def object_at_iff split: sum.splits object.splits)
  have f: "f = \<lparr>subsystem1_fld = Addr a, subsystem2_fld = Addr b\<rparr>"
    using a(1) b(1) by (cases f) simp
  have ne: "n \<noteq> a" "n \<noteq> b" using a b n by auto
  have "Facade_dtor h f = Inr (h[a := Released, b := Released])"
    unfolding f using a b by (simp add: Facade_dtor_live)
  moreover have "deref_Facade (h[a := Released, b := Released]) this = Inr f"
    using n ne by (simp add: deref_Facade_def)
  ultimately show ?thesis by blast
qed

lemma main_result:
  "main st = Inr (0, st\<lparr>mem := mem st @ [Released, Released, Released,
        Live (FacadeObj \<lparr>subsystem1_fld = Addr (length (mem st) + 4),
                          subsystem2_fld = Addr (length (mem st) + 5)\<rparr>),
        Live Subsystem1, Live Subsystem2],
      cout := cout st @ Operation_text @ ''\<newline>'' @ Operation_text\<rparr>)"
proof -
  define h0 where "h0 = mem st"
  define n where "n = length h0"
  define h2 where "h2 = h0 @ [Live Subsystem1, Live Subsystem2]"
  define f1 where "f1 = \<lparr>subsystem1_fld = Addr n, subsystem2_fld = Addr (n + 1)\<rparr>"
  define h3 where "h3 = h2 @ [Live (FacadeObj f1)]"
  define f2 where "f2 = \<lparr>subsystem1_fld = Addr (n + 4), subsystem2_fld = Addr (n + 5)\<rparr>"
  define h4 where "h4 = h3 @ [Live (FacadeObj f2), Live Subsystem1, Live Subsystem2]"
  have nf1: "new_Facade h2 (Addr n) (Addr (Suc n)) = (Addr (Suc (Suc n)), h3)"
    by (simp add: new_Facade_Addr_Addr h3_def f1_def h2_def n_def)
  have inv1: "facade_inv h3 (Addr (Suc (Suc n)))"
    by (rule new_Facade_inv [OF _ _ nf1])
      (simp_all add: arg1_ok_def arg2_ok_def is_Subsystem1_def is_Subsystem2_def h2_def n_def nth_append)
  have nf2: "new_Facade h3 Null Null = (Addr (n + 3), h4)"
    by (simp add: new_Facade_Null_Null h4_def f2_def h3_def h2_def n_def)
  have inv2: "facade_inv h4 (Addr (n + 3))"
    by (rule new_Facade_inv [OF _ _ nf2]) (simp_all add: arg1_ok_def arg2_ok_def)
  have del: "delete_Facade h4 (Addr (Suc (Suc n))) =
      Inr (h0 @ [Released, Released, Released, Live (FacadeObj f2), Live Subsystem1, Live Subsystem2])"
  proof -
    have "delete_Facade h4 (Addr (Suc (Suc n))) =
        Inr (h4[n := Released, Suc n := Released, Suc (Suc n) := Released])"
      by (rule delete_Facade_live)
        (simp_all add: h4_def h3_def h2_def f1_def n_def nth_append)
    also have "h4[n := Released, Suc n := Released, Suc (Suc n) := Released] =
       h0 @ [Released, Released, Released, Live (FacadeObj f2), Live Subsystem1, Live Subsystem2]"
      by (simp add: h4_def h3_def h2_def n_def list_update_append)
    finally show ?thesis .
  qed
  show ?thesis
    unfolding main_def
    by (simp add: new_Subsystem1_def new_Subsystem2_def h0_def [symmetric] n_def [symmetric]
        h2_def [symmetric] nf1 ClientCode_def Operation_facade_inv [OF inv1]
        nf2 Operation_facade_inv [OF inv2] del f2_def)
qed


lemma released_use:
  assumes "a < length h" and "h ! a = Released"
  shows "Subsystem1_Operation1 h (Addr a) = Inl UseAfterRelease"
    and "Subsystem1_OperationN h (Addr a) = Inl UseAfterRelease"
    and "Subsystem2_Operation1 h (Addr a) = Inl UseAfterRelease"
    and "Subsystem2_OperationZ h (Addr a) = Inl UseAfterRelease"
    and "delete_Subsystem1 h (Addr a) = Inl DoubleRelease"
    and "delete_Subsystem2 h (Addr a) = Inl DoubleRelease"
  using assms
  by (simp_all add: Subsystem1_Operation1_def Subsystem1_OperationN_def
      Subsystem2_Operation1_def Subsystem2_OperationZ_def delete_Subsystem1_def
      delete_Subsystem2_def deref_Subsystem1_def deref_Subsystem2_def object_at_def
      release_error_def)

lemma new_Facade_members:
  assumes "new_Facade h s1 s2 = (this, h1)"
  shows "\<exists>f. deref_Facade h1 this = Inr f \<and> subsystem1_fld f \<noteq> Null \<and> subsystem2_fld f \<noteq> Null"
  using assms by (cases s1; cases s2) (auto simp: new_Facade_cases)

section \<open>The composite operation\<close>

text \<open>
  Claim C1. For every facade instance (a live Facade whose members designate a live
  Subsystem1 and a live Subsystem2), \<open>Operation\<close> returns the first header line, the result
  of Subsystem1's Operation1, the result of Subsystem2's Operation1, the second header
  line, the result of Subsystem1's OperationN and the result of Subsystem2's OperationZ,
  concatenated in that order; and this is the fixed six-line text of the specification.
\<close>
theorem Operation_output:
  assumes "facade_inv h this"
  shows "\<exists>f a1 b1 an bz.
     deref_Facade h this = Inr f \<and>
     Subsystem1_Operation1 h (subsystem1_fld f) = Inr (a1, h) \<and>
     Subsystem2_Operation1 h (subsystem2_fld f) = Inr (b1, h) \<and>
     Subsystem1_OperationN h (subsystem1_fld f) = Inr (an, h) \<and>
     Subsystem2_OperationZ h (subsystem2_fld f) = Inr (bz, h) \<and>
     Operation h this =
       Inr (''Facade initializes subsystems:\<newline>'' @ a1 @ b1 @
            ''Facade orders subsystems to perform the action:\<newline>'' @ an @ bz, h) \<and>
     Operation h this =
       Inr (''Facade initializes subsystems:\<newline>Subsystem1: Ready!\<newline>Subsystem2: Get ready!\<newline>Facade orders subsystems to perform the action:\<newline>Subsystem1: Go!\<newline>Subsystem2: Fire!\<newline>'', h)"
proof -
  from assms obtain f where f: "deref_Facade h this = Inr f"
    and s1: "is_Subsystem1 h (subsystem1_fld f)" and s2: "is_Subsystem2 h (subsystem2_fld f)"
    by (rule facade_invD)
  have op: "Operation h this = Inr (Operation_text, h)"
    using assms by (rule Operation_facade_inv)
  show ?thesis
    using f Subsystem1_ops [OF s1] Subsystem2_ops [OF s2] op
    by (simp add: Operation_text_def)
qed

theorem Operation_output_witness:
  "facade_inv [Live Subsystem1, Live Subsystem2,
       Live (FacadeObj \<lparr>subsystem1_fld = Addr 0, subsystem2_fld = Addr 1\<rparr>)] (Addr 2) \<and>
   Operation [Live Subsystem1, Live Subsystem2,
       Live (FacadeObj \<lparr>subsystem1_fld = Addr 0, subsystem2_fld = Addr 1\<rparr>)] (Addr 2) =
     Inr (''Facade initializes subsystems:\<newline>Subsystem1: Ready!\<newline>Subsystem2: Get ready!\<newline>Facade orders subsystems to perform the action:\<newline>Subsystem1: Go!\<newline>Subsystem2: Fire!\<newline>'',
       [Live Subsystem1, Live Subsystem2,
        Live (FacadeObj \<lparr>subsystem1_fld = Addr 0, subsystem2_fld = Addr 1\<rparr>)])"
proof -
  have inv: "facade_inv [Live Subsystem1, Live Subsystem2,
       Live (FacadeObj \<lparr>subsystem1_fld = Addr 0, subsystem2_fld = Addr 1\<rparr>)] (Addr 2)"
    by (simp add: facade_inv_def deref_Facade_def is_Subsystem1_def is_Subsystem2_def)
  from Operation_output [OF inv] inv show ?thesis by blast
qed

section \<open>The subsystem operations\<close>

text \<open>
  Claim C6. On a live instance, each of the four subsystem operations returns its fixed
  string, whatever the store and whichever instance it is called on, never fails, and
  leaves the store as it was.
\<close>
theorem Subsystem_operations_fixed:
  assumes "is_Subsystem1 h a" and "is_Subsystem2 h b"
  shows "Subsystem1_Operation1 h a = Inr (''Subsystem1: Ready!\<newline>'', h) \<and>
         Subsystem1_OperationN h a = Inr (''Subsystem1: Go!\<newline>'', h) \<and>
         Subsystem2_Operation1 h b = Inr (''Subsystem2: Get ready!\<newline>'', h) \<and>
         Subsystem2_OperationZ h b = Inr (''Subsystem2: Fire!\<newline>'', h)"
  using Subsystem1_ops [OF assms(1)] Subsystem2_ops [OF assms(2)] by simp

theorem Subsystem_operations_fixed_witness:
  "is_Subsystem1 [Live Subsystem1, Live Subsystem2] (Addr 0) \<and>
   is_Subsystem2 [Live Subsystem1, Live Subsystem2] (Addr 1) \<and>
   Subsystem1_Operation1 [Live Subsystem1, Live Subsystem2] (Addr 0) =
     Inr (''Subsystem1: Ready!\<newline>'', [Live Subsystem1, Live Subsystem2]) \<and>
   Subsystem1_OperationN [Live Subsystem1, Live Subsystem2] (Addr 0) =
     Inr (''Subsystem1: Go!\<newline>'', [Live Subsystem1, Live Subsystem2]) \<and>
   Subsystem2_Operation1 [Live Subsystem1, Live Subsystem2] (Addr 1) =
     Inr (''Subsystem2: Get ready!\<newline>'', [Live Subsystem1, Live Subsystem2]) \<and>
   Subsystem2_OperationZ [Live Subsystem1, Live Subsystem2] (Addr 1) =
     Inr (''Subsystem2: Fire!\<newline>'', [Live Subsystem1, Live Subsystem2])"
proof -
  have a: "is_Subsystem1 [Live Subsystem1, Live Subsystem2] (Addr 0)"
    by (simp add: is_Subsystem1_def)
  have b: "is_Subsystem2 [Live Subsystem1, Live Subsystem2] (Addr 1)"
    by (simp add: is_Subsystem2_def)
  from Subsystem_operations_fixed [OF a b] a b show ?thesis by simp
qed

section \<open>The frame of the composite operation\<close>

text \<open>
  Claim C10. \<open>Operation\<close> returns on every facade instance, and whenever it returns, the
  store after the call is the store before it: the two members of the facade are the
  same, and no object has been created, replaced or released.
\<close>
theorem Operation_leaves_store:
  "(facade_inv h this \<longrightarrow> (\<exists>s. Operation h this = Inr (s, h))) \<and>
   (\<forall>s h'. Operation h this = Inr (s, h') \<longrightarrow>
      h' = h \<and> length h' = length h \<and> deref_Facade h' this = deref_Facade h this)"
  using Operation_facade_inv [of h this] Operation_frame [of h this] by auto

theorem Operation_leaves_store_witness:
  "facade_inv [Live Subsystem1, Live Subsystem2,
       Live (FacadeObj \<lparr>subsystem1_fld = Addr 0, subsystem2_fld = Addr 1\<rparr>)] (Addr 2) \<and>
   (\<exists>s. Operation [Live Subsystem1, Live Subsystem2,
       Live (FacadeObj \<lparr>subsystem1_fld = Addr 0, subsystem2_fld = Addr 1\<rparr>)] (Addr 2) =
     Inr (s, [Live Subsystem1, Live Subsystem2,
        Live (FacadeObj \<lparr>subsystem1_fld = Addr 0, subsystem2_fld = Addr 1\<rparr>)]))"
proof -
  have inv: "facade_inv [Live Subsystem1, Live Subsystem2,
       Live (FacadeObj \<lparr>subsystem1_fld = Addr 0, subsystem2_fld = Addr 1\<rparr>)] (Addr 2)"
    by (simp add: facade_inv_def deref_Facade_def is_Subsystem1_def is_Subsystem2_def)
  from Operation_leaves_store [of "[Live Subsystem1, Live Subsystem2,
       Live (FacadeObj \<lparr>subsystem1_fld = Addr 0, subsystem2_fld = Addr 1\<rparr>)]" "Addr 2"] inv
  show ?thesis by blast
qed

section \<open>The entry point\<close>

text \<open>
  Claim C9. From any initial state, \<open>main\<close> returns exit status 0. It appends to the
  standard output the text of the composite operation (from the facade built on the two
  subsystem instances that \<open>main\<close> created), a newline, and the same text again (from the
  facade built with no instances). In the final store the first facade and the two
  instances given to it are released, and the second facade and the two instances it
  created are still live.
\<close>
theorem main_output_and_status:
  "main st = Inr (0, st\<lparr>mem := mem st @ [Released, Released, Released,
        Live (FacadeObj \<lparr>subsystem1_fld = Addr (length (mem st) + 4),
                          subsystem2_fld = Addr (length (mem st) + 5)\<rparr>),
        Live Subsystem1, Live Subsystem2],
      cout := cout st @
        ''Facade initializes subsystems:\<newline>Subsystem1: Ready!\<newline>Subsystem2: Get ready!\<newline>Facade orders subsystems to perform the action:\<newline>Subsystem1: Go!\<newline>Subsystem2: Fire!\<newline>'' @
        ''\<newline>'' @
        ''Facade initializes subsystems:\<newline>Subsystem1: Ready!\<newline>Subsystem2: Get ready!\<newline>Facade orders subsystems to perform the action:\<newline>Subsystem1: Go!\<newline>Subsystem2: Fire!\<newline>''\<rparr>)"
  using main_result [of st] by (simp add: Operation_text_def)

section \<open>Supplied and created subsystems give the same output\<close>

text \<open>
  Claim C3. A facade constructed with no subsystem instances (in any store) and a facade
  constructed on two live supplied instances (in any store) return the same string from
  \<open>Operation\<close>, each leaving its store unchanged.
\<close>
theorem Operation_owned_as_borrowed:
  assumes "is_Subsystem1 h s1" and "is_Subsystem2 h s2"
    and "new_Facade h s1 s2 = (fb, hb)"
    and "new_Facade h' Null Null = (fo, ho)"
  shows "\<exists>s. Operation ho fo = Inr (s, ho) \<and> Operation hb fb = Inr (s, hb)"
proof -
  have "facade_inv hb fb"
    using assms(1,2) by (intro new_Facade_inv [OF _ _ assms(3)]) (simp_all add: arg1_ok_def arg2_ok_def)
  moreover have "facade_inv ho fo"
    by (rule new_Facade_inv [OF _ _ assms(4)]) (simp_all add: arg1_ok_def arg2_ok_def)
  ultimately show ?thesis
    by (simp add: Operation_facade_inv)
qed

theorem Operation_owned_as_borrowed_witness:
  "is_Subsystem1 [Live Subsystem1, Live Subsystem2] (Addr 0) \<and>
   is_Subsystem2 [Live Subsystem1, Live Subsystem2] (Addr 1) \<and>
   new_Facade [Live Subsystem1, Live Subsystem2] (Addr 0) (Addr 1) =
     (Addr 2, [Live Subsystem1, Live Subsystem2,
               Live (FacadeObj \<lparr>subsystem1_fld = Addr 0, subsystem2_fld = Addr 1\<rparr>)]) \<and>
   new_Facade [] Null Null =
     (Addr 0, [Live (FacadeObj \<lparr>subsystem1_fld = Addr 1, subsystem2_fld = Addr 2\<rparr>),
               Live Subsystem1, Live Subsystem2]) \<and>
   (\<exists>s. Operation [Live (FacadeObj \<lparr>subsystem1_fld = Addr 1, subsystem2_fld = Addr 2\<rparr>),
               Live Subsystem1, Live Subsystem2] (Addr 0) =
          Inr (s, [Live (FacadeObj \<lparr>subsystem1_fld = Addr 1, subsystem2_fld = Addr 2\<rparr>),
               Live Subsystem1, Live Subsystem2]) \<and>
        Operation [Live Subsystem1, Live Subsystem2,
               Live (FacadeObj \<lparr>subsystem1_fld = Addr 0, subsystem2_fld = Addr 1\<rparr>)] (Addr 2) =
          Inr (s, [Live Subsystem1, Live Subsystem2,
               Live (FacadeObj \<lparr>subsystem1_fld = Addr 0, subsystem2_fld = Addr 1\<rparr>)]))"
proof -
  have a: "is_Subsystem1 [Live Subsystem1, Live Subsystem2] (Addr 0)"
    by (simp add: is_Subsystem1_def)
  have b: "is_Subsystem2 [Live Subsystem1, Live Subsystem2] (Addr 1)"
    by (simp add: is_Subsystem2_def)
  have n: "new_Facade [Live Subsystem1, Live Subsystem2] (Addr 0) (Addr 1) =
     (Addr 2, [Live Subsystem1, Live Subsystem2,
               Live (FacadeObj \<lparr>subsystem1_fld = Addr 0, subsystem2_fld = Addr 1\<rparr>)])"
    by (simp add: new_Facade_Addr_Addr)
  have m: "new_Facade [] Null Null =
     (Addr 0, [Live (FacadeObj \<lparr>subsystem1_fld = Addr 1, subsystem2_fld = Addr 2\<rparr>),
               Live Subsystem1, Live Subsystem2])"
    by (simp add: new_Facade_Null_Null)
  from Operation_owned_as_borrowed [OF a b n m] a b n m show ?thesis
    by blast
qed

section \<open>The constructor\<close>

text \<open>
  Claim C4. For each of the two parameters of the constructor, independently of the
  other: when the argument is not null, the member is exactly the argument; when it is
  null, the member is the address of a new cell (not an address of the store before the
  call) that holds a live default instance of the corresponding subsystem type. The
  constructor leaves the cells of the store it was given as they were and adds one cell
  for each null argument.
\<close>
theorem Facade_ctor_members:
  assumes "Facade_ctor h subsystem1 subsystem2 = (f, h')"
  shows "(subsystem1 \<noteq> Null \<longrightarrow> subsystem1_fld f = subsystem1) \<and>
         (subsystem1 = Null \<longrightarrow>
            (\<exists>a. subsystem1_fld f = Addr a \<and> length h \<le> a \<and> a < length h' \<and>
                 h' ! a = Live Subsystem1)) \<and>
         (subsystem2 \<noteq> Null \<longrightarrow> subsystem2_fld f = subsystem2) \<and>
         (subsystem2 = Null \<longrightarrow>
            (\<exists>b. subsystem2_fld f = Addr b \<and> length h \<le> b \<and> b < length h' \<and>
                 h' ! b = Live Subsystem2)) \<and>
         take (length h) h' = h \<and>
         length h' = length h + (if subsystem1 = Null then 1 else 0)
                              + (if subsystem2 = Null then 1 else 0)"
  using assms
  by (cases subsystem1; cases subsystem2)
    (auto simp: Facade_ctor_def new_Subsystem1_def new_Subsystem2_def nth_append)

theorem Facade_ctor_members_witness:
  "Facade_ctor [Live Subsystem1] (Addr 0) Null =
     (\<lparr>subsystem1_fld = Addr 0, subsystem2_fld = Addr 1\<rparr>, [Live Subsystem1, Live Subsystem2]) \<and>
   Facade_ctor [Live Subsystem2] Null (Addr 0) =
     (\<lparr>subsystem1_fld = Addr 1, subsystem2_fld = Addr 0\<rparr>, [Live Subsystem2, Live Subsystem1]) \<and>
   subsystem1_fld \<lparr>subsystem1_fld = Addr 0, subsystem2_fld = Addr 1\<rparr> = Addr 0 \<and>
   [Live Subsystem1, Live Subsystem2] ! 1 = Live Subsystem2 \<and>
   subsystem2_fld \<lparr>subsystem1_fld = Addr 1, subsystem2_fld = Addr 0\<rparr> = Addr 0 \<and>
   [Live Subsystem2, Live Subsystem1] ! 1 = Live Subsystem1 \<and>
   length [Live Subsystem1, Live Subsystem2] = length [Live Subsystem1] + 0 + 1"
proof -
  have c1: "Facade_ctor [Live Subsystem1] (Addr 0) Null =
     (\<lparr>subsystem1_fld = Addr 0, subsystem2_fld = Addr 1\<rparr>, [Live Subsystem1, Live Subsystem2])"
    by (simp add: Facade_ctor_def new_Subsystem2_def)
  have c2: "Facade_ctor [Live Subsystem2] Null (Addr 0) =
     (\<lparr>subsystem1_fld = Addr 1, subsystem2_fld = Addr 0\<rparr>, [Live Subsystem2, Live Subsystem1])"
    by (simp add: Facade_ctor_def new_Subsystem1_def)
  from Facade_ctor_members [OF c1] Facade_ctor_members [OF c2] c1 c2 show ?thesis
    by simp
qed

section \<open>The members of a facade during its lifetime\<close>

text \<open>
  Claim C5. After \<open>new Facade(s1, s2)\<close>, for any arguments, the facade holds two members
  and neither is null. Whatever number of calls of \<open>Operation\<close> follows, the facade still
  holds the same two members. When the arguments are null or live instances, any number
  of calls of \<open>Operation\<close> returns, and the destructor body itself leaves both members as
  they were (it deletes the objects they designate and assigns nothing).
\<close>
theorem Facade_members_never_null:
  assumes "new_Facade h s1 s2 = (this, h1)"
  shows "\<exists>f. deref_Facade h1 this = Inr f \<and>
     subsystem1_fld f \<noteq> Null \<and> subsystem2_fld f \<noteq> Null \<and>
     (\<forall>n ss h2. Operations n h1 this = Inr (ss, h2) \<longrightarrow> deref_Facade h2 this = Inr f) \<and>
     (arg1_ok h s1 \<and> arg2_ok h s2 \<longrightarrow>
        (\<forall>n. \<exists>ss. Operations n h1 this = Inr (ss, h1)) \<and>
        (\<exists>h2. Facade_dtor h1 f = Inr h2 \<and> deref_Facade h2 this = Inr f))"
proof -
  from new_Facade_members [OF assms] obtain f where f: "deref_Facade h1 this = Inr f"
    and nn: "subsystem1_fld f \<noteq> Null" "subsystem2_fld f \<noteq> Null"
    by blast
  have frame: "\<forall>n ss h2. Operations n h1 this = Inr (ss, h2) \<longrightarrow> deref_Facade h2 this = Inr f"
    using f by (auto dest: Operations_frame)
  have life: "(\<forall>n. \<exists>ss. Operations n h1 this = Inr (ss, h1)) \<and>
        (\<exists>h2. Facade_dtor h1 f = Inr h2 \<and> deref_Facade h2 this = Inr f)"
    if ok: "arg1_ok h s1" "arg2_ok h s2"
  proof -
    have inv: "facade_inv h1 this"
      using ok assms by (rule new_Facade_inv)
    show ?thesis
      using Operations_facade_inv [OF inv] Facade_dtor_keeps_members [OF inv f] by simp
  qed
  from f nn frame life show ?thesis by blast
qed

theorem Facade_members_never_null_witness:
  "new_Facade [Live Subsystem1] (Addr 0) Null =
     (Addr 1, [Live Subsystem1,
               Live (FacadeObj \<lparr>subsystem1_fld = Addr 0, subsystem2_fld = Addr 2\<rparr>),
               Live Subsystem2]) \<and>
   arg1_ok [Live Subsystem1] (Addr 0) \<and> arg2_ok [Live Subsystem1] Null \<and>
   (\<exists>ss. Operations 3 [Live Subsystem1,
               Live (FacadeObj \<lparr>subsystem1_fld = Addr 0, subsystem2_fld = Addr 2\<rparr>),
               Live Subsystem2] (Addr 1) =
         Inr (ss, [Live Subsystem1,
               Live (FacadeObj \<lparr>subsystem1_fld = Addr 0, subsystem2_fld = Addr 2\<rparr>),
               Live Subsystem2])) \<and>
   deref_Facade [Live Subsystem1,
               Live (FacadeObj \<lparr>subsystem1_fld = Addr 0, subsystem2_fld = Addr 2\<rparr>),
               Live Subsystem2] (Addr 1) =
     Inr \<lparr>subsystem1_fld = Addr 0, subsystem2_fld = Addr 2\<rparr>"
proof -
  have n: "new_Facade [Live Subsystem1] (Addr 0) Null =
     (Addr 1, [Live Subsystem1,
               Live (FacadeObj \<lparr>subsystem1_fld = Addr 0, subsystem2_fld = Addr 2\<rparr>),
               Live Subsystem2])"
    by (simp add: new_Facade_Addr_Null)
  have a: "arg1_ok [Live Subsystem1] (Addr 0)"
    by (simp add: arg1_ok_def is_Subsystem1_def)
  have b: "arg2_ok [Live Subsystem1] Null"
    by (simp add: arg2_ok_def)
  have d: "deref_Facade [Live Subsystem1,
               Live (FacadeObj \<lparr>subsystem1_fld = Addr 0, subsystem2_fld = Addr 2\<rparr>),
               Live Subsystem2] (Addr 1) =
     Inr \<lparr>subsystem1_fld = Addr 0, subsystem2_fld = Addr 2\<rparr>"
    by (simp add: deref_Facade_def)
  from Facade_members_never_null [OF n] a b n d show ?thesis
    by blast
qed

section \<open>Teardown of a facade that created its subsystems\<close>

text \<open>
  Claim C7. A facade constructed with no subsystem instances creates a Subsystem1 and a
  Subsystem2 right after its own storage. Its destructor succeeds (so nothing is released
  twice), releases exactly these two instances and changes no other cell; \<open>delete facade\<close>
  then releases the storage of the facade as well, and the store it was constructed in
  is as it was.
\<close>
theorem Facade_teardown_owned:
  assumes "new_Facade h Null Null = (facade, h1)"
  shows "\<exists>f. facade = Addr (length h) \<and>
     h1 = h @ [Live (FacadeObj f), Live Subsystem1, Live Subsystem2] \<and>
     subsystem1_fld f = Addr (length h + 1) \<and>
     subsystem2_fld f = Addr (length h + 2) \<and>
     Facade_dtor h1 f = Inr (h @ [Live (FacadeObj f), Released, Released]) \<and>
     delete_Facade h1 facade = Inr (h @ [Released, Released, Released])"
proof -
  define f where "f = \<lparr>subsystem1_fld = Addr (length h + 1), subsystem2_fld = Addr (length h + 2)\<rparr>"
  from assms have fac: "facade = Addr (length h)"
    and h1: "h1 = h @ [Live (FacadeObj f), Live Subsystem1, Live Subsystem2]"
    by (simp_all add: new_Facade_Null_Null f_def)
  have "Facade_dtor h1 f = Inr (h1[length h + 1 := Released, length h + 2 := Released])"
    unfolding f_def by (rule Facade_dtor_live) (simp_all add: h1 nth_append)
  then have dtor: "Facade_dtor h1 f = Inr (h @ [Live (FacadeObj f), Released, Released])"
    by (simp add: h1 list_update_append)
  have del: "delete_Facade h1 facade = Inr (h @ [Released, Released, Released])"
    using delete_owned [of h] assms by simp
  show ?thesis
    using fac h1 dtor del by (intro exI [of _ f]) (simp add: f_def)
qed

theorem Facade_teardown_owned_witness:
  "new_Facade [] Null Null =
     (Addr 0, [Live (FacadeObj \<lparr>subsystem1_fld = Addr 1, subsystem2_fld = Addr 2\<rparr>),
               Live Subsystem1, Live Subsystem2]) \<and>
   delete_Facade [Live (FacadeObj \<lparr>subsystem1_fld = Addr 1, subsystem2_fld = Addr 2\<rparr>),
               Live Subsystem1, Live Subsystem2] (Addr 0) = Inr [Released, Released, Released]"
proof -
  have m: "new_Facade [] Null Null =
     (Addr 0, [Live (FacadeObj \<lparr>subsystem1_fld = Addr 1, subsystem2_fld = Addr 2\<rparr>),
               Live Subsystem1, Live Subsystem2])"
    by (simp add: new_Facade_Null_Null)
  from Facade_teardown_owned [OF m] m show ?thesis
    by auto
qed

section \<open>Teardown of a facade built on supplied instances\<close>

text \<open>
  Claim C2 says that destroying a facade built on supplied instances leaves those
  instances valid for the client. The destructor deletes both members whatever their
  origin, so the claim fails: with a Subsystem1 at address 0 and a Subsystem2 at address
  1 given to the constructor, \<open>delete facade\<close> releases both, after which neither address
  designates a live instance, a call through either pointer is a use after release, and
  a \<open>delete\<close> by the client is a double release.
\<close>

theorem Facade_teardown_borrowed_counterexample:
  "is_Subsystem1 [Live Subsystem1, Live Subsystem2] (Addr 0) \<and>
   is_Subsystem2 [Live Subsystem1, Live Subsystem2] (Addr 1) \<and>
   new_Facade [Live Subsystem1, Live Subsystem2] (Addr 0) (Addr 1) =
     (Addr 2, [Live Subsystem1, Live Subsystem2,
               Live (FacadeObj \<lparr>subsystem1_fld = Addr 0, subsystem2_fld = Addr 1\<rparr>)]) \<and>
   delete_Facade [Live Subsystem1, Live Subsystem2,
               Live (FacadeObj \<lparr>subsystem1_fld = Addr 0, subsystem2_fld = Addr 1\<rparr>)] (Addr 2) =
     Inr [Released, Released, Released] \<and>
   \<not> is_Subsystem1 [Released, Released, Released] (Addr 0) \<and>
   \<not> is_Subsystem2 [Released, Released, Released] (Addr 1) \<and>
   Subsystem1_Operation1 [Released, Released, Released] (Addr 0) = Inl UseAfterRelease \<and>
   Subsystem2_Operation1 [Released, Released, Released] (Addr 1) = Inl UseAfterRelease \<and>
   delete_Subsystem1 [Released, Released, Released] (Addr 0) = Inl DoubleRelease \<and>
   delete_Subsystem2 [Released, Released, Released] (Addr 1) = Inl DoubleRelease"
  by (simp add: is_Subsystem1_def is_Subsystem2_def object_at_def new_Facade_Addr_Addr
      delete_Facade_live released_use)

text \<open>
  Claim C2, amended. A facade built on supplied instances takes over their ownership
  (the comment on the constructor delegates the memory ownership to the facade, and
  \<open>main\<close> never deletes its two subsystem instances). Whenever the two arguments designate
  a live Subsystem1 and a live Subsystem2, the instances are still live after
  construction, \<open>delete facade\<close> succeeds, so nothing is released twice by the teardown,
  and it releases exactly the two supplied instances and the facade itself. Afterwards
  the supplied instances are no longer valid for the client: every subsystem operation on
  them is a use after release and a further \<open>delete\<close> is a double release.
\<close>

theorem Facade_teardown_releases_supplied:
  assumes "is_Subsystem1 h s1" and "is_Subsystem2 h s2"
    and "new_Facade h s1 s2 = (facade, h1)"
  shows "\<exists>a b h2. s1 = Addr a \<and> s2 = Addr b \<and> a \<noteq> b \<and>
     is_Subsystem1 h1 s1 \<and> is_Subsystem2 h1 s2 \<and>
     delete_Facade h1 facade = Inr h2 \<and>
     h2 = h[a := Released, b := Released] @ [Released] \<and>
     \<not> is_Subsystem1 h2 s1 \<and> \<not> is_Subsystem2 h2 s2 \<and>
     Subsystem1_Operation1 h2 s1 = Inl UseAfterRelease \<and>
     Subsystem1_OperationN h2 s1 = Inl UseAfterRelease \<and>
     Subsystem2_Operation1 h2 s2 = Inl UseAfterRelease \<and>
     Subsystem2_OperationZ h2 s2 = Inl UseAfterRelease \<and>
     delete_Subsystem1 h2 s1 = Inl DoubleRelease \<and>
     delete_Subsystem2 h2 s2 = Inl DoubleRelease"
proof -
  from assms(1) obtain a where a: "s1 = Addr a" "a < length h" "h ! a = Live Subsystem1"
    by (auto dest: is_Subsystem1_D)
  from assms(2) obtain b where b: "s2 = Addr b" "b < length h" "h ! b = Live Subsystem2"
    by (auto dest: is_Subsystem2_D)
  define h2 where "h2 = h[a := Released, b := Released] @ [Released]"
  have ne: "a \<noteq> b" using a b by auto
  from assms(3) have h1: "h1 = snd (new_Facade h (Addr a) (Addr b))"
    and fac: "facade = fst (new_Facade h (Addr a) (Addr b))"
    by (simp_all add: a b)
  have live1: "is_Subsystem1 h1 s1" "is_Subsystem2 h1 s2"
    using assms(1,2)
    by (simp_all add: h1 new_Facade_Addr_Addr a(1) b(1) is_Subsystem1_append is_Subsystem2_append)
  have del: "delete_Facade h1 facade = Inr h2"
    unfolding h1 fac h2_def using assms(1,2) unfolding a(1) b(1) by (rule delete_borrowed)
  have ra: "a < length h2" "h2 ! a = Released"
    using a b ne by (simp_all add: h2_def nth_append nth_list_update)
  have rb: "b < length h2" "h2 ! b = Released"
    using a b ne by (simp_all add: h2_def nth_append nth_list_update)
  have dead: "\<not> is_Subsystem1 h2 s1" "\<not> is_Subsystem2 h2 s2"
    using ra rb by (simp_all add: is_Subsystem1_def is_Subsystem2_def object_at_def a(1) b(1))
  show ?thesis
    using ne live1 del dead released_use [OF ra] released_use [OF rb]
    by (simp add: a(1) b(1) h2_def)
qed

theorem Facade_teardown_releases_supplied_witness:
  "is_Subsystem1 [Live Subsystem1, Live Subsystem2] (Addr 0) \<and>
   is_Subsystem2 [Live Subsystem1, Live Subsystem2] (Addr 1) \<and>
   new_Facade [Live Subsystem1, Live Subsystem2] (Addr 0) (Addr 1) =
     (Addr 2, [Live Subsystem1, Live Subsystem2,
               Live (FacadeObj \<lparr>subsystem1_fld = Addr 0, subsystem2_fld = Addr 1\<rparr>)]) \<and>
   delete_Facade [Live Subsystem1, Live Subsystem2,
               Live (FacadeObj \<lparr>subsystem1_fld = Addr 0, subsystem2_fld = Addr 1\<rparr>)] (Addr 2) =
     Inr [Released, Released, Released]"
proof -
  have a: "is_Subsystem1 [Live Subsystem1, Live Subsystem2] (Addr 0)"
    by (simp add: is_Subsystem1_def)
  have b: "is_Subsystem2 [Live Subsystem1, Live Subsystem2] (Addr 1)"
    by (simp add: is_Subsystem2_def)
  have n: "new_Facade [Live Subsystem1, Live Subsystem2] (Addr 0) (Addr 1) =
     (Addr 2, [Live Subsystem1, Live Subsystem2,
               Live (FacadeObj \<lparr>subsystem1_fld = Addr 0, subsystem2_fld = Addr 1\<rparr>)])"
    by (simp add: new_Facade_Addr_Addr)
  from Facade_teardown_releases_supplied [OF a b n] a b n show ?thesis
    by auto
qed

section \<open>Determinism\<close>

text \<open>
  Claim C8. The composite operation and the four subsystem operations return without
  error on live instances, leave the store unchanged, and their results do not depend on
  the store or on the instance: two calls on any two facade instances in any two stores
  return equal strings, as do two calls in a row on the same facade, and likewise for
  each subsystem operation.
\<close>
theorem operations_deterministic:
  assumes "facade_inv h this" and "facade_inv h' this'"
    and "is_Subsystem1 h a" and "is_Subsystem1 h' a'"
    and "is_Subsystem2 h b" and "is_Subsystem2 h' b'"
  shows "(\<exists>s. Operation h this = Inr (s, h) \<and> Operation h' this' = Inr (s, h')) \<and>
         (\<exists>s. Operations 2 h this = Inr ([s, s], h)) \<and>
         (\<exists>s. Subsystem1_Operation1 h a = Inr (s, h) \<and> Subsystem1_Operation1 h' a' = Inr (s, h')) \<and>
         (\<exists>s. Subsystem1_OperationN h a = Inr (s, h) \<and> Subsystem1_OperationN h' a' = Inr (s, h')) \<and>
         (\<exists>s. Subsystem2_Operation1 h b = Inr (s, h) \<and> Subsystem2_Operation1 h' b' = Inr (s, h')) \<and>
         (\<exists>s. Subsystem2_OperationZ h b = Inr (s, h) \<and> Subsystem2_OperationZ h' b' = Inr (s, h'))"
proof -
  have "Operations 2 h this = Inr (replicate 2 Operation_text, h)"
    using assms(1) by (rule Operations_facade_inv)
  then have "Operations 2 h this = Inr ([Operation_text, Operation_text], h)"
    by (simp add: numeral_2_eq_2)
  then show ?thesis
    using Operation_facade_inv [OF assms(1)] Operation_facade_inv [OF assms(2)]
      Subsystem1_ops [OF assms(3)] Subsystem1_ops [OF assms(4)]
      Subsystem2_ops [OF assms(5)] Subsystem2_ops [OF assms(6)]
    by simp
qed

theorem operations_deterministic_witness:
  "facade_inv [Live Subsystem1, Live Subsystem2,
       Live (FacadeObj \<lparr>subsystem1_fld = Addr 0, subsystem2_fld = Addr 1\<rparr>)] (Addr 2) \<and>
   facade_inv [Live (FacadeObj \<lparr>subsystem1_fld = Addr 1, subsystem2_fld = Addr 2\<rparr>),
       Live Subsystem1, Live Subsystem2] (Addr 0) \<and>
   (\<exists>s. Operation [Live Subsystem1, Live Subsystem2,
       Live (FacadeObj \<lparr>subsystem1_fld = Addr 0, subsystem2_fld = Addr 1\<rparr>)] (Addr 2) =
         Inr (s, [Live Subsystem1, Live Subsystem2,
           Live (FacadeObj \<lparr>subsystem1_fld = Addr 0, subsystem2_fld = Addr 1\<rparr>)]) \<and>
        Operation [Live (FacadeObj \<lparr>subsystem1_fld = Addr 1, subsystem2_fld = Addr 2\<rparr>),
       Live Subsystem1, Live Subsystem2] (Addr 0) =
         Inr (s, [Live (FacadeObj \<lparr>subsystem1_fld = Addr 1, subsystem2_fld = Addr 2\<rparr>),
           Live Subsystem1, Live Subsystem2]))"
proof -
  have i1: "facade_inv [Live Subsystem1, Live Subsystem2,
       Live (FacadeObj \<lparr>subsystem1_fld = Addr 0, subsystem2_fld = Addr 1\<rparr>)] (Addr 2)"
    by (simp add: facade_inv_def deref_Facade_def is_Subsystem1_def is_Subsystem2_def)
  have i2: "facade_inv [Live (FacadeObj \<lparr>subsystem1_fld = Addr 1, subsystem2_fld = Addr 2\<rparr>),
       Live Subsystem1, Live Subsystem2] (Addr 0)"
    by (simp add: facade_inv_def deref_Facade_def is_Subsystem1_def is_Subsystem2_def)
  have a1: "is_Subsystem1 [Live Subsystem1, Live Subsystem2,
       Live (FacadeObj \<lparr>subsystem1_fld = Addr 0, subsystem2_fld = Addr 1\<rparr>)] (Addr 0)"
    by (simp add: is_Subsystem1_def)
  have a2: "is_Subsystem1 [Live (FacadeObj \<lparr>subsystem1_fld = Addr 1, subsystem2_fld = Addr 2\<rparr>),
       Live Subsystem1, Live Subsystem2] (Addr 1)"
    by (simp add: is_Subsystem1_def)
  have b1: "is_Subsystem2 [Live Subsystem1, Live Subsystem2,
       Live (FacadeObj \<lparr>subsystem1_fld = Addr 0, subsystem2_fld = Addr 1\<rparr>)] (Addr 1)"
    by (simp add: is_Subsystem2_def)
  have b2: "is_Subsystem2 [Live (FacadeObj \<lparr>subsystem1_fld = Addr 1, subsystem2_fld = Addr 2\<rparr>),
       Live Subsystem1, Live Subsystem2] (Addr 2)"
    by (simp add: is_Subsystem2_def)
  from operations_deterministic [OF i1 i2 a1 a2 b1 b2] i1 i2 show ?thesis
    by blast
qed

end
